theory Spec2Isabelle
  imports Main "HOL-Library.Word"
begin

section \<open>The bitmap file header reader\<close>

text \<open>
  A shallow embedding of \<^verbatim>\<open>src/sw/utils/read_bitmap_header/read_bitmap_header.cpp\<close>:
  the packed record \<^verbatim>\<open>BitmapFileHeader\<close>, the procedure \<^verbatim>\<open>readBmpHeader\<close> and
  \<^verbatim>\<open>main\<close>. The file system, the two console streams and the open file handles
  are an explicit state that every operation takes and returns.
\<close>

subsection \<open>Bytes and the packed header\<close>

type_synonym byte = "8 word"

text \<open>
  The memory of the local variable \<^verbatim>\<open>header\<close>: a byte for every offset from its
  address. Only the offsets 0 to 13 (\<^verbatim>\<open>sizeof(header)\<close>) are ever used.
\<close>

type_synonym memory = "nat \<Rightarrow> byte"

record BitmapFileHeader =
  bfType :: "16 word"
  bfSize :: "32 word"
  bfReserved1 :: "16 word"
  bfReserved2 :: "16 word"
  bfOffBits :: "32 word"

text \<open>
  A \<^verbatim>\<open>uint16_t\<close> and a \<^verbatim>\<open>uint32_t\<close> as they lie in the memory of a little-endian
  machine: the byte at the lowest address is the least significant one.
\<close>

definition le16 :: "byte \<Rightarrow> byte \<Rightarrow> 16 word" where
  "le16 b0 b1 = ucast b0 + ucast b1 * 0x100"

definition le32 :: "byte \<Rightarrow> byte \<Rightarrow> byte \<Rightarrow> byte \<Rightarrow> 32 word" where
  "le32 b0 b1 b2 b3 =
     ucast b0 + ucast b1 * 0x100 + ucast b2 * 0x10000 + ucast b3 * 0x1000000"

text \<open>
  The structure is packed, so its fields lie at the offsets 0, 2, 6, 8 and 10 with no
  padding. Reading a field of \<^verbatim>\<open>header\<close> after
  \<^verbatim>\<open>reinterpret_cast<char*>(&header)\<close> was filled is reading these bytes.
\<close>

definition header_of_memory :: "memory \<Rightarrow> BitmapFileHeader" where
  "header_of_memory m =
     \<lparr> bfType = le16 (m 0) (m 1),
       bfSize = le32 (m 2) (m 3) (m 4) (m 5),
       bfReserved1 = le16 (m 6) (m 7),
       bfReserved2 = le16 (m 8) (m 9),
       bfOffBits = le32 (m 10) (m 11) (m 12) (m 13) \<rparr>"

subsection \<open>The environment: files, console streams, handles\<close>

datatype io_event =
  OpenEv string bool
| ReadEv nat nat
| CloseEv

text \<open>
  \<open>files\<close> gives the content of every path that can be opened for reading and \<open>None\<close>
  for the others (missing file, permission denied). \<open>cout\<close> and \<open>cerr\<close> hold the text
  written so far, \<open>handles\<close> counts the file handles the process holds, and \<open>io_log\<close>
  records the calls made on files: an open with its outcome, a read with the count asked
  for and the count obtained, a close.
\<close>

record world =
  files :: "string \<Rightarrow> byte list option"
  cout :: string
  cerr :: string
  handles :: nat
  io_log :: "io_event list"

text \<open>The local \<^verbatim>\<open>std::ifstream\<close> object: whether it is open, and the bytes not read yet.\<close>

record ifstream =
  is_open :: bool
  unread :: "byte list"

text \<open>\<^verbatim>\<open>std::ifstream file(filename, std::ios::binary)\<close>\<close>

definition ifstream_ctor :: "string \<Rightarrow> world \<Rightarrow> ifstream \<times> world" where
  "ifstream_ctor filename w =
     (case files w filename of
        None \<Rightarrow>
          (\<lparr> is_open = False, unread = [] \<rparr>,
           w\<lparr> io_log := io_log w @ [OpenEv filename False] \<rparr>)
      | Some bs \<Rightarrow>
          (\<lparr> is_open = True, unread = bs \<rparr>,
           w\<lparr> handles := Suc (handles w),
              io_log := io_log w @ [OpenEv filename True] \<rparr>))"

text \<open>
  \<^verbatim>\<open>file.read(buf, n)\<close>: the bytes that are there, at most \<open>n\<close>, are stored at the
  start of the buffer; the rest of the buffer keeps what it held. The source does not
  look at the count obtained nor at the stream's state afterwards.
\<close>

definition ifstream_read :: "ifstream \<Rightarrow> memory \<Rightarrow> nat \<Rightarrow> world \<Rightarrow> ifstream \<times> memory \<times> world" where
  "ifstream_read f buf n w =
     (if is_open f then
        (let got = take n (unread f) in
           (f\<lparr> unread := drop n (unread f) \<rparr>,
            (\<lambda>i. if i < length got then got ! i else buf i),
            w\<lparr> io_log := io_log w @ [ReadEv n (length got)] \<rparr>))
      else (f, buf, w))"

text \<open>\<^verbatim>\<open>file.close()\<close>\<close>

definition ifstream_close :: "ifstream \<Rightarrow> world \<Rightarrow> ifstream \<times> world" where
  "ifstream_close f w =
     (if is_open f then
        (f\<lparr> is_open := False \<rparr>,
         w\<lparr> handles := handles w - 1, io_log := io_log w @ [CloseEv] \<rparr>)
      else (f, w))"

text \<open>The destructor of \<^verbatim>\<open>file\<close>, run at every \<^verbatim>\<open>return\<close>: it closes a stream still open.\<close>

definition ifstream_dtor :: "ifstream \<Rightarrow> world \<Rightarrow> world" where
  "ifstream_dtor f w = snd (ifstream_close f w)"

subsection \<open>Console output\<close>

text \<open>\<^verbatim>\<open>std::endl\<close> writes a line feed (and flushes).\<close>

definition endl :: string where
  "endl = [CHR 0x0A]"

text \<open>\<^verbatim>\<open>operator<<\<close> on an unsigned integer: decimal digits, no leading zero, no padding.\<close>

definition digit :: "nat \<Rightarrow> char" where
  "digit d = ''0123456789'' ! d"

fun show_nat :: "nat \<Rightarrow> string" where
  "show_nat n = (if n < 10 then [digit n] else show_nat (n div 10) @ [digit (n mod 10)])"

declare show_nat.simps [simp del]

definition show_u32 :: "32 word \<Rightarrow> string" where
  "show_u32 x = show_nat (unat x)"

subsection \<open>readBmpHeader and main\<close>

text \<open>
  \<^verbatim>\<open>BitmapFileHeader header;\<close> is not initialised: its bytes are whatever the stack
  held at that place. That content is the parameter \<open>stack\<close>.
\<close>

definition readBmpHeader :: "memory \<Rightarrow> string \<Rightarrow> world \<Rightarrow> world" where
  "readBmpHeader stack filename w0 =
     (let (file0, w1) = ifstream_ctor filename w0 in
      if \<not> is_open file0 then
        ifstream_dtor file0
          (w1\<lparr> cerr := cerr w1 @ ''Error: Could not open file '' @ filename @ endl \<rparr>)
      else
        (let (file1, mem, w2) = ifstream_read file0 stack 14 w1;
             header = header_of_memory mem
         in
           if bfType header \<noteq> 0x4D42 then
             (let w3 = w2\<lparr> cerr := cerr w2 @ ''Error: Not a valid BMP file.'' @ endl \<rparr>;
                  (file2, w4) = ifstream_close file1 w3
              in ifstream_dtor file2 w4)
           else
             (let w3 = w2\<lparr> cout := cout w2 @ ''File size: '' @ show_u32 (bfSize header)
                                  @ '' bytes'' @ endl \<rparr>;
                  w4 = w3\<lparr> cout := cout w3 @ ''Header size (offset to pixel data): ''
                                  @ show_u32 (bfOffBits header) @ '' bytes'' @ endl \<rparr>;
                  (file2, w5) = ifstream_close file1 w4
              in ifstream_dtor file2 w5)))"

text \<open>\<^verbatim>\<open>main\<close> returns its exit status together with the final state.\<close>

definition main :: "memory \<Rightarrow> world \<Rightarrow> int \<times> world" where
  "main stack w = (0, readBmpHeader stack ''../../../data/images/test_10x10.bmp'' w)"

subsection \<open>Notions used to state the properties\<close>

text \<open>
  The values of a two-byte and of a four-byte little-endian unsigned integer, as the
  specification names them: the first byte counts once, the next 256 times, and so on.
\<close>

definition le16_value :: "byte \<Rightarrow> byte \<Rightarrow> nat" where
  "le16_value b0 b1 = unat b0 + 256 * unat b1"

definition le32_value :: "byte \<Rightarrow> byte \<Rightarrow> byte \<Rightarrow> byte \<Rightarrow> nat" where
  "le32_value b0 b1 b2 b3 = unat b0 + 256 * unat b1 + 65536 * unat b2 + 16777216 * unat b3"

text \<open>
  The memory of \<^verbatim>\<open>header\<close> after \<^verbatim>\<open>file.read\<close> on a file holding \<open>bs\<close>: the first 14
  bytes of the file, as far as they exist, over the former content of the stack.
\<close>

definition loaded :: "memory \<Rightarrow> byte list \<Rightarrow> memory" where
  "loaded stack bs = (\<lambda>i. if i < length (take 14 bs) then take 14 bs ! i else stack i)"

text \<open>The text a stream received between two states.\<close>

definition written :: "string \<Rightarrow> string \<Rightarrow> string" where
  "written before after = drop (length before) after"

text \<open>The two lines of the console output, without their line feed.\<close>

definition file_size_line :: "nat \<Rightarrow> string" where
  "file_size_line n = ''File size: '' @ show_nat n @ '' bytes''"

definition header_size_line :: "nat \<Rightarrow> string" where
  "header_size_line n = ''Header size (offset to pixel data): '' @ show_nat n @ '' bytes''"

text \<open>
  A state to run the program in: one readable file, nothing written yet, no handle held.
\<close>

definition single_file_world :: "string \<Rightarrow> byte list \<Rightarrow> world" where
  "single_file_world p bs =
     \<lparr> files = (\<lambda>q. if q = p then Some bs else None),
       cout = [], cerr = [], handles = 0, io_log = [] \<rparr>"

text \<open>The 14 bytes of the specification's scenario: 42 4D 46 00 00 00 00 00 00 00 36 00 00 00.\<close>

definition scenario_bytes :: "byte list" where
  "scenario_bytes = [0x42, 0x4D, 0x46, 0, 0, 0, 0, 0, 0, 0, 0x36, 0, 0, 0]"

text \<open>
  The header of a 10 by 10 image of 24 bits a pixel (374 bytes, pixels from offset 54)
  with the start of what follows it, and a header with the scenario's fields whose
  reserved bytes and tail are not zero.
\<close>

definition sample_bmp_bytes :: "byte list" where
  "sample_bmp_bytes = [0x42, 0x4D, 0x76, 0x01, 0, 0, 0, 0, 0, 0, 0x36, 0, 0, 0, 0x28, 0, 0, 0]"

definition tagged_bmp_bytes :: "byte list" where
  "tagged_bmp_bytes = [0x42, 0x4D, 0x46, 0, 0, 0, 0xAA, 0xBB, 0xCC, 0xDD, 0x36, 0, 0, 0, 9, 9]"

text \<open>Three contents the stack may hold where \<^verbatim>\<open>header\<close> is placed.\<close>

definition stack_zero :: memory where
  "stack_zero = (\<lambda>_. 0)"

definition stack_ones :: memory where
  "stack_ones = (\<lambda>_. 0xFF)"

definition stack_bm :: memory where
  "stack_bm = (\<lambda>i. if i = 0 then 0x42 else if i = 1 then 0x4D else 0)"

text \<open>
  The texts readBmpHeader writes once the file is open, to the output stream and to the
  error stream, from the memory of \<^verbatim>\<open>header\<close> after the read.
\<close>

definition opened_text :: "memory \<Rightarrow> byte list \<Rightarrow> string \<times> string" where
  "opened_text stack bs =
     (if bfType (header_of_memory (loaded stack bs)) \<noteq> 0x4D42 then
        ([], ''Error: Not a valid BMP file.'' @ endl)
      else
        (''File size: '' @ show_u32 (bfSize (header_of_memory (loaded stack bs)))
           @ '' bytes'' @ endl
           @ ''Header size (offset to pixel data): ''
           @ show_u32 (bfOffBits (header_of_memory (loaded stack bs))) @ '' bytes'' @ endl,
         []))"

section \<open>Properties\<close>

subsection \<open>Decoding\<close>

lemma byte_bound: "unat (b :: byte) < 256"
  using unsigned_less [of b, where 'a = nat] by simp

lemma unat_ucast_byte16: "unat (ucast (b :: byte) :: 16 word) = unat b"
proof -
  have "unat b < 2 ^ 16" using byte_bound [of b] by simp
  then show ?thesis by (simp add: unsigned_ucast_eq take_bit_nat_eq_self)
qed

lemma unat_ucast_byte32: "unat (ucast (b :: byte) :: 32 word) = unat b"
proof -
  have "unat b < 2 ^ 32" using byte_bound [of b] by simp
  then show ?thesis by (simp add: unsigned_ucast_eq take_bit_nat_eq_self)
qed

text \<open>The fields read from memory have the little-endian values of their bytes: no carry is lost.\<close>

lemma unat_le16: "unat (le16 b0 b1) = le16_value b0 b1"
proof -
  have "unat b0 < 256" "unat b1 < 256" by (rule byte_bound)+
  then have "unat b0 + unat b1 * 256 < 65536" by arith
  then show ?thesis
    by (simp add: le16_def le16_value_def unat_word_ariths unat_ucast_byte16)
qed

lemma unat_le32: "unat (le32 b0 b1 b2 b3) = le32_value b0 b1 b2 b3"
proof -
  have "unat b0 < 256" "unat b1 < 256" "unat b2 < 256" "unat b3 < 256" by (rule byte_bound)+
  then have "unat b0 + unat b1 * 256 + unat b2 * 65536 + unat b3 * 16777216 < 4294967296"
    by arith
  then show ?thesis
    by (simp add: le32_def le32_value_def unat_word_ariths unat_ucast_byte32)
qed

lemma le16_signature_iff: "le16 b0 b1 = 0x4D42 \<longleftrightarrow> le16_value b0 b1 = 0x4D42"
proof -
  have "le16 b0 b1 = 0x4D42 \<longleftrightarrow> unat (le16 b0 b1) = unat (0x4D42 :: 16 word)"
    by (simp only: word_unat_eq_iff)
  then show ?thesis by (simp add: unat_le16)
qed

subsection \<open>The header's memory after the read\<close>

lemma loaded_full: "14 \<le> length bs \<Longrightarrow> i < 14 \<Longrightarrow> loaded stack bs i = bs ! i"
  by (simp add: loaded_def)

lemma loaded_prefix: "i < length bs \<Longrightarrow> i < 14 \<Longrightarrow> loaded stack bs i = bs ! i"
  by (simp add: loaded_def)

lemma loaded_beyond: "length bs \<le> i \<Longrightarrow> loaded stack bs i = stack i"
  by (simp add: loaded_def)

lemma header_full:
  assumes "14 \<le> length bs"
  shows "header_of_memory (loaded stack bs) = header_of_memory (\<lambda>i. bs ! i)"
  using assms by (simp add: header_of_memory_def loaded_full)

subsection \<open>The two ways through readBmpHeader\<close>

lemma readBmpHeader_closed:
  assumes "files w path = None"
  shows "readBmpHeader stack path w =
           w\<lparr> cerr := cerr w @ ''Error: Could not open file '' @ path @ endl,
              io_log := io_log w @ [OpenEv path False] \<rparr>"
  using assms
  by (simp add: readBmpHeader_def ifstream_ctor_def ifstream_dtor_def ifstream_close_def)

lemma readBmpHeader_opened:
  assumes "files w path = Some bs"
  shows "readBmpHeader stack path w =
           (if bfType (header_of_memory (loaded stack bs)) \<noteq> 0x4D42 then
              w\<lparr> cerr := cerr w @ ''Error: Not a valid BMP file.'' @ endl,
                 io_log := io_log w
                   @ [OpenEv path True, ReadEv 14 (length (take 14 bs)), CloseEv] \<rparr>
            else
              w\<lparr> cout := cout w @ ''File size: ''
                        @ show_u32 (bfSize (header_of_memory (loaded stack bs)))
                        @ '' bytes'' @ endl
                        @ ''Header size (offset to pixel data): ''
                        @ show_u32 (bfOffBits (header_of_memory (loaded stack bs)))
                        @ '' bytes'' @ endl,
                 io_log := io_log w
                   @ [OpenEv path True, ReadEv 14 (length (take 14 bs)), CloseEv] \<rparr>)"
  using assms
  by (simp add: readBmpHeader_def ifstream_ctor_def ifstream_read_def ifstream_dtor_def
      ifstream_close_def loaded_def Let_def)

lemma written_append: "written xs (xs @ ys) = ys"
  by (simp add: written_def)

lemma show_nat_70: "show_nat 70 = ''70''"
  by code_simp

lemma show_nat_54: "show_nat 54 = ''54''"
  by code_simp

subsection \<open>The reported fields\<close>

text \<open>
  C1. On a file of at least 14 bytes whose first two bytes, read as a little-endian
  16-bit integer, are 0x4D42, the numbers printed are the little-endian 32-bit values of
  the bytes 2 to 5 and of the bytes 10 to 13, whatever the stack held. When the file
  begins with the bytes of the scenario, the lines say 70 and 54.
\<close>

theorem readBmpHeader_reports_encoded_fields:
  assumes "files w path = Some bs" and "14 \<le> length bs"
    and "le16_value (bs ! 0) (bs ! 1) = 0x4D42"
  shows "cout (readBmpHeader stack path w) =
           cout w @ ''File size: '' @ show_nat (le32_value (bs ! 2) (bs ! 3) (bs ! 4) (bs ! 5))
             @ '' bytes'' @ endl
             @ ''Header size (offset to pixel data): ''
             @ show_nat (le32_value (bs ! 10) (bs ! 11) (bs ! 12) (bs ! 13)) @ '' bytes'' @ endl
         \<and> (take 14 bs = scenario_bytes \<longrightarrow>
              cout (readBmpHeader stack path w) =
                cout w @ ''File size: 70 bytes'' @ endl
                  @ ''Header size (offset to pixel data): 54 bytes'' @ endl)"
proof -
  let ?h = "header_of_memory (loaded stack bs)"
  have h: "?h = header_of_memory (\<lambda>i. bs ! i)"
    using assms(2) by (rule header_full)
  have sig: "bfType ?h = 0x4D42"
    unfolding h using assms(3) by (simp add: header_of_memory_def le16_signature_iff)
  have size: "show_u32 (bfSize ?h) = show_nat (le32_value (bs ! 2) (bs ! 3) (bs ! 4) (bs ! 5))"
    unfolding h by (simp add: header_of_memory_def show_u32_def unat_le32)
  have off: "show_u32 (bfOffBits ?h)
               = show_nat (le32_value (bs ! 10) (bs ! 11) (bs ! 12) (bs ! 13))"
    unfolding h by (simp add: header_of_memory_def show_u32_def unat_le32)
  have general: "cout (readBmpHeader stack path w) =
           cout w @ ''File size: '' @ show_nat (le32_value (bs ! 2) (bs ! 3) (bs ! 4) (bs ! 5))
             @ '' bytes'' @ endl
             @ ''Header size (offset to pixel data): ''
             @ show_nat (le32_value (bs ! 10) (bs ! 11) (bs ! 12) (bs ! 13)) @ '' bytes'' @ endl"
    by (simp add: readBmpHeader_opened [OF assms(1)] sig size off)
  have particular: "cout (readBmpHeader stack path w) =
                cout w @ ''File size: 70 bytes'' @ endl
                  @ ''Header size (offset to pixel data): 54 bytes'' @ endl"
    if t: "take 14 bs = scenario_bytes"
  proof -
    have nth: "bs ! i = scenario_bytes ! i" if "i < 14" for i
      using that assms(2) t by (metis nth_take)
    have "le32_value (bs ! 2) (bs ! 3) (bs ! 4) (bs ! 5) = 70"
      by (simp add: nth le32_value_def scenario_bytes_def)
    moreover have "le32_value (bs ! 10) (bs ! 11) (bs ! 12) (bs ! 13) = 54"
      by (simp add: nth le32_value_def scenario_bytes_def)
    ultimately show ?thesis
      by (simp add: general show_nat_70 show_nat_54)
  qed
  from general particular show ?thesis by blast
qed

theorem readBmpHeader_reports_encoded_fields_witness:
  "files (single_file_world ''test_10x10.bmp'' (scenario_bytes @ [0x28, 0, 0, 0]))
       ''test_10x10.bmp''
     = Some (scenario_bytes @ [0x28, 0, 0, 0])
   \<and> 14 \<le> length (scenario_bytes @ [0x28, 0, 0, 0])
   \<and> le16_value ((scenario_bytes @ [0x28, 0, 0, 0]) ! 0)
        ((scenario_bytes @ [0x28, 0, 0, 0]) ! 1) = 0x4D42
   \<and> take 14 (scenario_bytes @ [0x28, 0, 0, 0]) = scenario_bytes
   \<and> cout (readBmpHeader (\<lambda>_. 0xCC) ''test_10x10.bmp''
             (single_file_world ''test_10x10.bmp'' (scenario_bytes @ [0x28, 0, 0, 0])))
       = ''File size: 70 bytes'' @ endl @ ''Header size (offset to pixel data): 54 bytes'' @ endl"
  using readBmpHeader_reports_encoded_fields
    [of "single_file_world ''test_10x10.bmp'' (scenario_bytes @ [0x28, 0, 0, 0])"
        "''test_10x10.bmp''" "scenario_bytes @ [0x28, 0, 0, 0]" "\<lambda>_. 0xCC"]
  by (simp add: single_file_world_def scenario_bytes_def le16_value_def le32_value_def
      show_nat_70 show_nat_54)

subsection \<open>Decimal output\<close>

lemma digit_is_decimal: "d < 10 \<Longrightarrow> digit d \<in> set ''0123456789''"
  unfolding digit_def by (rule nth_mem) simp

lemma show_nat_decimal: "set (show_nat n) \<subseteq> set ''0123456789''"
proof (induction n rule: show_nat.induct)
  case (1 n)
  show ?case
  proof (cases "n < 10")
    case True
    then show ?thesis
      using digit_is_decimal [of n] by (subst show_nat.simps) simp
  next
    case False
    have "digit (n mod 10) \<in> set ''0123456789''"
      by (rule digit_is_decimal) simp
    with False "1.IH" show ?thesis
      by (subst show_nat.simps) simp
  qed
qed

lemma show_nat_no_line_feed: "CHR 0x0A \<notin> set (show_nat n)"
  using show_nat_decimal [of n] by auto

subsection \<open>The error paths\<close>

text \<open>
  C2. On a readable file whose first two bytes, read as a little-endian 16-bit integer,
  are not 0x4D42, the error stream receives the line \<^verbatim>\<open>Error: Not a valid BMP file.\<close>
  and the output stream receives nothing, whatever the stack held. The file has its
  first two bytes, so it holds at least two.
\<close>

theorem readBmpHeader_rejects_bad_signature:
  assumes "files w path = Some bs" and "2 \<le> length bs"
    and "le16_value (bs ! 0) (bs ! 1) \<noteq> 0x4D42"
  shows "cerr (readBmpHeader stack path w) = cerr w @ ''Error: Not a valid BMP file.'' @ endl
         \<and> cout (readBmpHeader stack path w) = cout w"
proof -
  have len: "0 < length bs" "1 < length bs"
    using assms(2) by arith+
  have "loaded stack bs 0 = bs ! 0" "loaded stack bs 1 = bs ! 1"
    using len by (simp_all add: loaded_prefix)
  then have "bfType (header_of_memory (loaded stack bs)) = le16 (bs ! 0) (bs ! 1)"
    by (simp add: header_of_memory_def)
  with assms(3) have "bfType (header_of_memory (loaded stack bs)) \<noteq> 0x4D42"
    by (simp add: le16_signature_iff)
  then show ?thesis
    by (simp add: readBmpHeader_opened [OF assms(1)])
qed

theorem readBmpHeader_rejects_bad_signature_witness:
  "files (single_file_world ''zeros.bin'' [0, 0, 7]) ''zeros.bin'' = Some [0, 0, 7]
   \<and> 2 \<le> length [0, 0, 7 :: byte]
   \<and> le16_value ([0, 0, 7] ! 0) ([0, 0, 7] ! 1) \<noteq> 0x4D42
   \<and> cerr (readBmpHeader (\<lambda>_. 0xCC) ''zeros.bin'' (single_file_world ''zeros.bin'' [0, 0, 7]))
       = ''Error: Not a valid BMP file.'' @ endl
   \<and> cout (readBmpHeader (\<lambda>_. 0xCC) ''zeros.bin'' (single_file_world ''zeros.bin'' [0, 0, 7]))
       = []"
  using readBmpHeader_rejects_bad_signature
    [of "single_file_world ''zeros.bin'' [0, 0, 7]" "''zeros.bin''" "[0, 0, 7]" "\<lambda>_. 0xCC"]
  by (simp add: single_file_world_def le16_value_def)

text \<open>
  C3. When the file cannot be opened, the error stream receives the line
  \<^verbatim>\<open>Error: Could not open file\<close> followed by the path, the output stream receives
  nothing, the only call made on files is the failed open (no read, no close), and no
  handle is held.
\<close>

theorem readBmpHeader_open_failure:
  assumes "files w path = None"
  shows "cerr (readBmpHeader stack path w) = cerr w @ ''Error: Could not open file '' @ path @ endl
         \<and> cout (readBmpHeader stack path w) = cout w
         \<and> io_log (readBmpHeader stack path w) = io_log w @ [OpenEv path False]
         \<and> handles (readBmpHeader stack path w) = handles w"
  by (simp add: readBmpHeader_closed [OF assms])

theorem readBmpHeader_open_failure_witness:
  "files (single_file_world ''test_10x10.bmp'' scenario_bytes) ''missing.bmp'' = None
   \<and> cerr (readBmpHeader (\<lambda>_. 0xCC) ''missing.bmp'' (single_file_world ''test_10x10.bmp'' scenario_bytes))
       = ''Error: Could not open file missing.bmp'' @ endl
   \<and> cout (readBmpHeader (\<lambda>_. 0xCC) ''missing.bmp'' (single_file_world ''test_10x10.bmp'' scenario_bytes))
       = []
   \<and> io_log (readBmpHeader (\<lambda>_. 0xCC) ''missing.bmp'' (single_file_world ''test_10x10.bmp'' scenario_bytes))
       = [OpenEv ''missing.bmp'' False]
   \<and> handles (readBmpHeader (\<lambda>_. 0xCC) ''missing.bmp'' (single_file_world ''test_10x10.bmp'' scenario_bytes))
       = 0"
  using readBmpHeader_open_failure
    [of "single_file_world ''test_10x10.bmp'' scenario_bytes" "''missing.bmp''" "\<lambda>_. 0xCC"]
  by (simp add: single_file_world_def)

subsection \<open>The success path\<close>

lemma show_nat_374: "show_nat 374 = ''374''"
  by (simp add: show_nat.simps digit_def)
lemma show_nat_0: "show_nat 0 = ''0''"
  by (simp add: show_nat.simps digit_def)
lemma show_nat_max: "show_nat 4294967295 = ''4294967295''"
  by (simp add: show_nat.simps digit_def)

text \<open>
  C5. On a successful run (the file opens, holds at least 14 bytes and has the
  signature 0x4D42) the output stream receives exactly the line
  \<^verbatim>\<open>File size: <fileSizeBytes> bytes\<close> and then the line
  \<^verbatim>\<open>Header size (offset to pixel data): <pixelDataOffset> bytes\<close>, each ended by a
  line feed and holding none, with the two fields of the header in decimal; the error
  stream receives nothing.
\<close>

theorem readBmpHeader_success_output_format:
  assumes "files w path = Some bs" and "14 \<le> length bs"
    and "le16_value (bs ! 0) (bs ! 1) = 0x4D42"
  shows "written (cout w) (cout (readBmpHeader stack path w)) =
           file_size_line (unat (bfSize (header_of_memory (\<lambda>i. bs ! i)))) @ endl
           @ header_size_line (unat (bfOffBits (header_of_memory (\<lambda>i. bs ! i)))) @ endl
         \<and> CHR 0x0A \<notin> set (file_size_line (unat (bfSize (header_of_memory (\<lambda>i. bs ! i)))))
         \<and> CHR 0x0A \<notin> set (header_size_line (unat (bfOffBits (header_of_memory (\<lambda>i. bs ! i)))))
         \<and> cerr (readBmpHeader stack path w) = cerr w"
proof -
  let ?h = "header_of_memory (loaded stack bs)"
  have h: "?h = header_of_memory (\<lambda>i. bs ! i)"
    using assms(2) by (rule header_full)
  have sig: "bfType ?h = 0x4D42"
    unfolding h using assms(3) by (simp add: header_of_memory_def le16_signature_iff)
  have run: "readBmpHeader stack path w =
      w\<lparr> cout := cout w @ ''File size: '' @ show_u32 (bfSize ?h) @ '' bytes'' @ endl
                @ ''Header size (offset to pixel data): '' @ show_u32 (bfOffBits ?h)
                @ '' bytes'' @ endl,
         io_log := io_log w @ [OpenEv path True, ReadEv 14 (length (take 14 bs)), CloseEv] \<rparr>"
    using sig by (simp add: readBmpHeader_opened [OF assms(1)])
  have out: "cout (readBmpHeader stack path w) =
      cout w @ (file_size_line (unat (bfSize (header_of_memory (\<lambda>i. bs ! i)))) @ endl
           @ header_size_line (unat (bfOffBits (header_of_memory (\<lambda>i. bs ! i)))) @ endl)"
    unfolding run h by (simp add: file_size_line_def header_size_line_def show_u32_def)
  have "written (cout w) (cout (readBmpHeader stack path w)) =
           file_size_line (unat (bfSize (header_of_memory (\<lambda>i. bs ! i)))) @ endl
           @ header_size_line (unat (bfOffBits (header_of_memory (\<lambda>i. bs ! i)))) @ endl"
    unfolding out by (rule written_append)
  moreover have "CHR 0x0A \<notin> set (file_size_line n)" "CHR 0x0A \<notin> set (header_size_line n)" for n
    using show_nat_no_line_feed [of n] by (simp_all add: file_size_line_def header_size_line_def)
  moreover have "cerr (readBmpHeader stack path w) = cerr w"
    unfolding run by simp
  ultimately show ?thesis by blast
qed

theorem readBmpHeader_success_output_format_witness:
  "files (single_file_world ''test_10x10.bmp'' sample_bmp_bytes) ''test_10x10.bmp''
     = Some sample_bmp_bytes
   \<and> 14 \<le> length sample_bmp_bytes
   \<and> le16_value (sample_bmp_bytes ! 0) (sample_bmp_bytes ! 1) = 0x4D42
   \<and> written [] (cout (readBmpHeader stack_ones ''test_10x10.bmp''
        (single_file_world ''test_10x10.bmp'' sample_bmp_bytes)))
       = ''File size: 374 bytes'' @ endl @ ''Header size (offset to pixel data): 54 bytes'' @ endl
   \<and> cerr (readBmpHeader stack_ones ''test_10x10.bmp''
        (single_file_world ''test_10x10.bmp'' sample_bmp_bytes)) = []"
  using readBmpHeader_success_output_format
    [of "single_file_world ''test_10x10.bmp'' sample_bmp_bytes"
        "''test_10x10.bmp''" sample_bmp_bytes stack_ones]
  by (simp add: single_file_world_def sample_bmp_bytes_def le16_value_def header_of_memory_def
      le32_def file_size_line_def header_size_line_def show_nat_374 show_nat_54)

subsection \<open>Exit status, files and handles\<close>

text \<open>
  C6. The exit status of \<^verbatim>\<open>main\<close> is zero in every state and for every content of the
  stack: whether the file opened, and whatever it held.
\<close>

theorem main_exit_status_zero:
  "fst (main stack w) = 0"
  by (simp add: main_def)

text \<open>
  C8. readBmpHeader leaves the file system as it was on every path: every path names
  the same content, or no file, after the call as before.
\<close>

theorem readBmpHeader_files_unchanged:
  "files (readBmpHeader stack path w) = files w"
proof (cases "files w path")
  case None
  then show ?thesis by (simp add: readBmpHeader_closed)
next
  case (Some bs)
  then show ?thesis by (simp add: readBmpHeader_opened)
qed

text \<open>
  C9. When the file opens, a handle is acquired and it is released before
  readBmpHeader returns: the count of handles is back at its former value, and the
  calls made on the file are the open, one read of 14 bytes and the close, for every
  content of the file and of the stack, so on the success path, on the signature
  failure and after a short read.
\<close>

theorem readBmpHeader_releases_handle:
  assumes "files w path = Some bs"
  shows "handles (snd (ifstream_ctor path w)) = Suc (handles w)
         \<and> handles (readBmpHeader stack path w) = handles w
         \<and> io_log (readBmpHeader stack path w)
             = io_log w @ [OpenEv path True, ReadEv 14 (min 14 (length bs)), CloseEv]"
  using assms by (simp add: readBmpHeader_opened ifstream_ctor_def min.commute)

theorem readBmpHeader_releases_handle_witness:
  "files (single_file_world ''short.bmp'' [0x42, 0x4D]) ''short.bmp'' = Some [0x42, 0x4D]
   \<and> handles (snd (ifstream_ctor ''short.bmp'' (single_file_world ''short.bmp'' [0x42, 0x4D]))) = 1
   \<and> handles (readBmpHeader stack_zero ''short.bmp'' (single_file_world ''short.bmp'' [0x42, 0x4D])) = 0
   \<and> io_log (readBmpHeader stack_zero ''short.bmp'' (single_file_world ''short.bmp'' [0x42, 0x4D]))
       = [OpenEv ''short.bmp'' True, ReadEv 14 2, CloseEv]"
  using readBmpHeader_releases_handle
    [of "single_file_world ''short.bmp'' [0x42, 0x4D]" "''short.bmp''" "[0x42, 0x4D]" stack_zero]
  by (simp add: single_file_world_def)

subsection \<open>Bytes that do not matter\<close>

text \<open>
  C10. Two readable files of at least 14 bytes that agree on the bytes 0 to 5 and 10
  to 13 make readBmpHeader write the same text to the output stream and the same text to
  the error stream: the reserved bytes 6 to 9, the bytes from 14 on, the path and the
  stack have no influence.
\<close>

theorem readBmpHeader_ignores_other_bytes:
  assumes "files w1 p1 = Some b1" and "files w2 p2 = Some b2"
    and "14 \<le> length b1" and "14 \<le> length b2"
    and "\<forall>i \<in> {0, 1, 2, 3, 4, 5, 10, 11, 12, 13}. b1 ! i = b2 ! i"
  shows "written (cout w1) (cout (readBmpHeader s1 p1 w1))
           = written (cout w2) (cout (readBmpHeader s2 p2 w2))
         \<and> written (cerr w1) (cerr (readBmpHeader s1 p1 w1))
           = written (cerr w2) (cerr (readBmpHeader s2 p2 w2))"
proof -
  let ?h1 = "header_of_memory (loaded s1 b1)" and ?h2 = "header_of_memory (loaded s2 b2)"
  have h1: "?h1 = header_of_memory (\<lambda>i. b1 ! i)" using assms(3) by (rule header_full)
  have h2: "?h2 = header_of_memory (\<lambda>i. b2 ! i)" using assms(4) by (rule header_full)
  have same: "bfType ?h1 = bfType ?h2" "bfSize ?h1 = bfSize ?h2" "bfOffBits ?h1 = bfOffBits ?h2"
    unfolding h1 h2 using assms(5) by (simp_all add: header_of_memory_def)
  show ?thesis
  proof (cases "bfType ?h2 = 0x4D42")
    case True
    then show ?thesis
      using same
      by (simp add: readBmpHeader_opened [OF assms(1)] readBmpHeader_opened [OF assms(2)]
          written_def)
  next
    case False
    then show ?thesis
      using same
      by (simp add: readBmpHeader_opened [OF assms(1)] readBmpHeader_opened [OF assms(2)]
          written_def)
  qed
qed

theorem readBmpHeader_ignores_other_bytes_witness:
  "files (single_file_world ''a.bmp'' (scenario_bytes @ [1, 2, 3])) ''a.bmp''
     = Some (scenario_bytes @ [1, 2, 3])
   \<and> files (single_file_world ''b.bmp'' tagged_bmp_bytes) ''b.bmp'' = Some tagged_bmp_bytes
   \<and> 14 \<le> length (scenario_bytes @ [1, 2, 3]) \<and> 14 \<le> length tagged_bmp_bytes
   \<and> map (\<lambda>i. (scenario_bytes @ [1, 2, 3]) ! i) [0, 1, 2, 3, 4, 5, 10, 11, 12, 13]
       = map (\<lambda>i. tagged_bmp_bytes ! i) [0, 1, 2, 3, 4, 5, 10, 11, 12, 13]
   \<and> scenario_bytes @ [1, 2, 3] \<noteq> tagged_bmp_bytes
   \<and> written [] (cout (readBmpHeader stack_zero ''a.bmp''
         (single_file_world ''a.bmp'' (scenario_bytes @ [1, 2, 3]))))
       = written [] (cout (readBmpHeader stack_ones ''b.bmp''
         (single_file_world ''b.bmp'' tagged_bmp_bytes)))
   \<and> written [] (cerr (readBmpHeader stack_zero ''a.bmp''
         (single_file_world ''a.bmp'' (scenario_bytes @ [1, 2, 3]))))
       = written [] (cerr (readBmpHeader stack_ones ''b.bmp''
         (single_file_world ''b.bmp'' tagged_bmp_bytes)))"
  using readBmpHeader_ignores_other_bytes
    [of "single_file_world ''a.bmp'' (scenario_bytes @ [1, 2, 3])" "''a.bmp''"
        "scenario_bytes @ [1, 2, 3]"
        "single_file_world ''b.bmp'' tagged_bmp_bytes" "''b.bmp''" tagged_bmp_bytes
        stack_zero stack_ones]
  by (simp add: single_file_world_def scenario_bytes_def tagged_bmp_bytes_def)

subsection \<open>Short reads\<close>

lemma single_file_world_sel:
  "files (single_file_world p bs) p = Some bs"
  "cout (single_file_world p bs) = []"
  "cerr (single_file_world p bs) = []"
  "handles (single_file_world p bs) = 0"
  "io_log (single_file_world p bs) = []"
  by (simp_all add: single_file_world_def)

text \<open>
  After a read of at most 10 bytes the field \<^verbatim>\<open>bfOffBits\<close> is made of the bytes the stack
  held.
\<close>

lemma offset_of_short_read:
  assumes "length bs \<le> 10"
  shows "bfOffBits (header_of_memory (loaded stack bs))
           = le32 (stack 10) (stack 11) (stack 12) (stack 13)"
  using assms by (simp add: header_of_memory_def loaded_beyond)

lemma readBmpHeader_opened_streams:
  assumes "files w path = Some bs"
  shows "cout (readBmpHeader stack path w) = cout w @ fst (opened_text stack bs)"
    and "cerr (readBmpHeader stack path w) = cerr w @ snd (opened_text stack bs)"
    and "files (readBmpHeader stack path w) path = Some bs"
  using assms by (simp_all add: readBmpHeader_opened opened_text_def)

text \<open>
  A second call writes what the first wrote when the file cannot be opened and when it
  holds a whole header: the stack has no influence there.
\<close>

lemma readBmpHeader_repeatable_when_defined:
  assumes "files w path = None \<or> (\<exists>bs. files w path = Some bs \<and> 14 \<le> length bs)"
  shows "written (cout (readBmpHeader s1 path w))
             (cout (readBmpHeader s2 path (readBmpHeader s1 path w)))
           = written (cout w) (cout (readBmpHeader s1 path w))
         \<and> written (cerr (readBmpHeader s1 path w))
             (cerr (readBmpHeader s2 path (readBmpHeader s1 path w)))
           = written (cerr w) (cerr (readBmpHeader s1 path w))"
proof -
  define w1 where "w1 = readBmpHeader s1 path w"
  from assms show ?thesis
  proof
    assume closed: "files w path = None"
    define line where "line = ''Error: Could not open file '' @ path @ endl"
    have first: "w1 = w\<lparr> cerr := cerr w @ ''Error: Could not open file '' @ path @ endl,
                          io_log := io_log w @ [OpenEv path False] \<rparr>"
      unfolding w1_def using closed by (rule readBmpHeader_closed)
    have "files w1 path = None"
      using closed by (simp add: first)
    then have second: "readBmpHeader s2 path w1 =
        w1\<lparr> cerr := cerr w1 @ ''Error: Could not open file '' @ path @ endl,
            io_log := io_log w1 @ [OpenEv path False] \<rparr>"
      by (rule readBmpHeader_closed)
    have c1: "cerr w1 = cerr w @ line" "cout w1 = cout w"
      by (simp_all add: first line_def)
    have c2: "cerr (readBmpHeader s2 path w1) = cerr w1 @ line"
      "cout (readBmpHeader s2 path w1) = cout w1"
      unfolding second by (simp_all add: line_def)
    have "written (cerr w1) (cerr (readBmpHeader s2 path w1)) = line"
      unfolding c2 by (rule written_append)
    moreover have "written (cerr w) (cerr w1) = line"
      unfolding c1 by (rule written_append)
    moreover have "written (cout w1) (cout (readBmpHeader s2 path w1)) = written (cout w) (cout w1)"
      unfolding c2 c1 by (simp add: written_def)
    ultimately have "written (cout w1) (cout (readBmpHeader s2 path w1)) = written (cout w) (cout w1)
          \<and> written (cerr w1) (cerr (readBmpHeader s2 path w1)) = written (cerr w) (cerr w1)"
      by simp
    then show ?thesis by (simp only: w1_def)
  next
    assume "\<exists>bs. files w path = Some bs \<and> 14 \<le> length bs"
    then obtain bs where opened: "files w path = Some bs" and full: "14 \<le> length bs"
      by blast
    have same: "header_of_memory (loaded s2 bs) = header_of_memory (loaded s1 bs)"
      using full by (simp add: header_full)
    have first: "cout w1 = cout w @ fst (opened_text s1 bs)"
      "cerr w1 = cerr w @ snd (opened_text s1 bs)" "files w1 path = Some bs"
      unfolding w1_def using opened by (simp_all add: readBmpHeader_opened_streams)
    have same_text: "opened_text s2 bs = opened_text s1 bs"
      by (simp add: opened_text_def same)
    have second: "cout (readBmpHeader s2 path w1) = cout w1 @ fst (opened_text s1 bs)"
      "cerr (readBmpHeader s2 path w1) = cerr w1 @ snd (opened_text s1 bs)"
      using first(3) by (simp_all add: readBmpHeader_opened_streams same_text)
    have "written (cout w1) (cout (readBmpHeader s2 path w1)) = fst (opened_text s1 bs)"
      unfolding second by (rule written_append)
    moreover have "written (cout w) (cout w1) = fst (opened_text s1 bs)"
      unfolding first by (rule written_append)
    moreover have "written (cerr w1) (cerr (readBmpHeader s2 path w1)) = snd (opened_text s1 bs)"
      unfolding second by (rule written_append)
    moreover have "written (cerr w) (cerr w1) = snd (opened_text s1 bs)"
      unfolding first by (rule written_append)
    ultimately have "written (cout w1) (cout (readBmpHeader s2 path w1)) = written (cout w) (cout w1)
          \<and> written (cerr w1) (cerr (readBmpHeader s2 path w1)) = written (cerr w) (cerr w1)"
      by simp
    then show ?thesis by (simp only: w1_def)
  qed
qed

text \<open>
  C4. A file that opens and holds only the two bytes 42 4D is not reported as truncated:
  the error stream receives nothing, and the two lines print as file size and as offset
  the bytes the stack held where \<^verbatim>\<open>header\<close> is placed, 0 over a stack of zero bytes and
  4294967295 over a stack of FF bytes. The values reported for this file are not
  defined by the file.
\<close>

theorem readBmpHeader_short_file_prints_stack:
  "cout (readBmpHeader stack_zero ''short.bmp'' (single_file_world ''short.bmp'' [0x42, 0x4D]))
     = ''File size: 0 bytes'' @ endl @ ''Header size (offset to pixel data): 0 bytes'' @ endl
   \<and> cerr (readBmpHeader stack_zero ''short.bmp'' (single_file_world ''short.bmp'' [0x42, 0x4D]))
     = []
   \<and> cout (readBmpHeader stack_ones ''short.bmp'' (single_file_world ''short.bmp'' [0x42, 0x4D]))
     = ''File size: 4294967295 bytes'' @ endl
       @ ''Header size (offset to pixel data): 4294967295 bytes'' @ endl
   \<and> cerr (readBmpHeader stack_ones ''short.bmp'' (single_file_world ''short.bmp'' [0x42, 0x4D]))
     = []"
proof -
  have z: "header_of_memory (loaded stack_zero [0x42, 0x4D])
             = \<lparr> bfType = 0x4D42, bfSize = 0, bfReserved1 = 0, bfReserved2 = 0, bfOffBits = 0 \<rparr>"
    by (simp add: header_of_memory_def loaded_def stack_zero_def le16_def le32_def)
  have o: "header_of_memory (loaded stack_ones [0x42, 0x4D])
             = \<lparr> bfType = 0x4D42, bfSize = 0xFFFFFFFF, bfReserved1 = 0xFFFF,
                 bfReserved2 = 0xFFFF, bfOffBits = 0xFFFFFFFF \<rparr>"
    by (simp add: header_of_memory_def loaded_def stack_ones_def le16_def le32_def)
  show ?thesis
    by (simp add: readBmpHeader_opened [OF single_file_world_sel(1)] z o show_u32_def
        show_nat_0 show_nat_max single_file_world_sel)
qed

text \<open>
  C7. Two calls in a row on the same empty file, which is unchanged in between, do not
  write the same text: over a stack of zero bytes the first call writes the signature
  error to the error stream, and over a stack holding 42 4D at the start of \<^verbatim>\<open>header\<close>
  the second call writes the two lines to the output stream.
\<close>

theorem readBmpHeader_twice_on_empty_file_differs:
  "(let w0 = single_file_world ''empty.bmp'' [];
        w1 = readBmpHeader stack_zero ''empty.bmp'' w0;
        w2 = readBmpHeader stack_bm ''empty.bmp'' w1
    in files w1 ''empty.bmp'' = files w0 ''empty.bmp''
     \<and> files w2 ''empty.bmp'' = files w0 ''empty.bmp''
     \<and> written (cout w0) (cout w1) = []
     \<and> written (cerr w0) (cerr w1) = ''Error: Not a valid BMP file.'' @ endl
     \<and> written (cout w1) (cout w2)
         = ''File size: 0 bytes'' @ endl @ ''Header size (offset to pixel data): 0 bytes'' @ endl
     \<and> written (cerr w1) (cerr w2) = [])"
proof -
  define w0 where "w0 = single_file_world ''empty.bmp'' []"
  define w1 where "w1 = readBmpHeader stack_zero ''empty.bmp'' w0"
  define w2 where "w2 = readBmpHeader stack_bm ''empty.bmp'' w1"
  have f0: "files w0 ''empty.bmp'' = Some []"
    by (simp add: w0_def single_file_world_sel)
  have z: "bfType (header_of_memory (loaded stack_zero [])) \<noteq> 0x4D42"
    by (simp add: header_of_memory_def loaded_def stack_zero_def le16_def)
  have first: "w1 = w0\<lparr> cerr := cerr w0 @ ''Error: Not a valid BMP file.'' @ endl,
                        io_log := io_log w0 @ [OpenEv ''empty.bmp'' True, ReadEv 14 0, CloseEv] \<rparr>"
    unfolding w1_def using z by (simp add: readBmpHeader_opened [OF f0])
  have f1: "files w1 ''empty.bmp'' = Some []"
    by (simp add: first f0)
  have b: "header_of_memory (loaded stack_bm [])
             = \<lparr> bfType = 0x4D42, bfSize = 0, bfReserved1 = 0, bfReserved2 = 0, bfOffBits = 0 \<rparr>"
    by (simp add: header_of_memory_def loaded_def stack_bm_def le16_def le32_def)
  have second: "w2 = w1\<lparr> cout := cout w1 @ ''File size: 0 bytes'' @ endl
                           @ ''Header size (offset to pixel data): 0 bytes'' @ endl,
                        io_log := io_log w1 @ [OpenEv ''empty.bmp'' True, ReadEv 14 0, CloseEv] \<rparr>"
    unfolding w2_def by (simp add: readBmpHeader_opened [OF f1] b show_u32_def show_nat_0)
  have "files w1 ''empty.bmp'' = files w0 ''empty.bmp''
     \<and> files w2 ''empty.bmp'' = files w0 ''empty.bmp''
     \<and> written (cout w0) (cout w1) = []
     \<and> written (cerr w0) (cerr w1) = ''Error: Not a valid BMP file.'' @ endl
     \<and> written (cout w1) (cout w2)
         = ''File size: 0 bytes'' @ endl @ ''Header size (offset to pixel data): 0 bytes'' @ endl
     \<and> written (cerr w1) (cerr w2) = []"
    unfolding second by (simp add: first written_def)
  then show ?thesis
    by (simp only: Let_def w0_def w1_def w2_def)
qed

end
